theory Spec2Isabelle
  imports Main
begin

section \<open>JavaScript values seen by the session manager\<close>

text \<open>
  The module of \<^verbatim>\<open>frontend/src/contexts/AuthContext.jsx\<close> handles values parsed from JSON
  response bodies. A JavaScript number is carried by the two observations the module makes
  of it: whether it is truthy (neither \<open>0\<close> nor \<open>-0\<close>; JSON has no \<open>NaN\<close>) and its rendering
  by \<open>ToString\<close>.
\<close>

datatype number = Number (nonzero: bool) (shown: string)

datatype jsval =
    JUndefined
  | JNull
  | JBool bool
  | JNum number
  | JStr string
  | JArr "jsval list"
  | JObj "(string \<times> jsval) list"

datatype js_error = NetworkError | SyntaxError | TypeError

text \<open>Truthiness, as \<open>!x\<close>, \<open>x || y\<close> and \<open>if (x)\<close> test it.\<close>

fun truthy :: "jsval \<Rightarrow> bool" where
  "truthy JUndefined = False"
| "truthy JNull = False"
| "truthy (JBool b) = b"
| "truthy (JNum n) = nonzero n"
| "truthy (JStr s) = (s \<noteq> [])"
| "truthy (JArr xs) = True"
| "truthy (JObj kvs) = True"

text \<open>\<open>a || b\<close>\<close>

definition js_or :: "jsval \<Rightarrow> jsval \<Rightarrow> jsval" where
  "js_or a b = (if truthy a then a else b)"

text \<open>
  Property read \<open>v.k\<close>. It throws a TypeError on \<open>null\<close> and \<open>undefined\<close>. The module reads
  only the keys \<open>user\<close>, \<open>token\<close> and \<open>message\<close>, which no prototype of a string, number,
  boolean or array defines, so on those values the read gives \<open>undefined\<close>. An object
  parsed from JSON is the list of its own properties, each key once.
\<close>

fun get_prop :: "jsval \<Rightarrow> string \<Rightarrow> js_error + jsval" where
  "get_prop JUndefined k = Inl TypeError"
| "get_prop JNull k = Inl TypeError"
| "get_prop (JObj kvs) k = Inr (case map_of kvs k of None \<Rightarrow> JUndefined | Some v \<Rightarrow> v)"
| "get_prop v k = Inr JUndefined"

text \<open>Optional chaining \<open>v?.k\<close>: \<open>undefined\<close> where \<open>v\<close> is nullish.\<close>

fun opt_prop :: "jsval \<Rightarrow> string \<Rightarrow> jsval" where
  "opt_prop JUndefined k = JUndefined"
| "opt_prop JNull k = JUndefined"
| "opt_prop (JObj kvs) k = (case map_of kvs k of None \<Rightarrow> JUndefined | Some v \<Rightarrow> v)"
| "opt_prop v k = JUndefined"

fun join :: "string \<Rightarrow> string list \<Rightarrow> string" where
  "join sep [] = []"
| "join sep [x] = x"
| "join sep (x # y # ys) = x @ sep @ join sep (y # ys)"

text \<open>
  \<open>ToString\<close>, which \<open>localStorage.setItem\<close> and a template literal apply to their argument.
  On an object it calls the \<open>toString\<close> method. A parsed object with an own \<open>toString\<close> key
  has a value there that is not callable, \<open>valueOf\<close> gives the object back, and the
  conversion throws a TypeError; without that key \<open>Object.prototype.toString\<close> answers. An
  array joins the conversions of its elements, \<open>null\<close> and \<open>undefined\<close> giving the empty
  string.
\<close>

fun to_string :: "jsval \<Rightarrow> js_error + string"
  and to_strings :: "jsval list \<Rightarrow> js_error + string list" where
  "to_string JUndefined = Inr ''undefined''"
| "to_string JNull = Inr ''null''"
| "to_string (JBool b) = Inr (if b then ''true'' else ''false'')"
| "to_string (JNum n) = Inr (shown n)"
| "to_string (JStr s) = Inr s"
| "to_string (JArr xs) =
     (case to_strings xs of Inl e \<Rightarrow> Inl e | Inr ss \<Rightarrow> Inr (join '','' ss))"
| "to_string (JObj kvs) =
     (case map_of kvs ''toString'' of
        None \<Rightarrow> Inr ''[object Object]''
      | Some v \<Rightarrow> Inl TypeError)"
| "to_strings [] = Inr []"
| "to_strings (x # xs) =
     (case (if x = JUndefined \<or> x = JNull then Inr [] else to_string x) of
        Inl e \<Rightarrow> Inl e
      | Inr s \<Rightarrow> (case to_strings xs of Inl e \<Rightarrow> Inl e | Inr ss \<Rightarrow> Inr (s # ss)))"

section \<open>Requests, responses and the world\<close>

record request =
  http_method :: string
  url :: string
  headers :: "(string \<times> string) list"
  payload :: "jsval option"

text \<open>
  \<open>payload\<close> is the value handed to \<open>JSON.stringify\<close> for the request body. A response
  carries its status, its status text and how \<open>res.json()\<close> settles on its body: with the
  parsed value, or rejecting with an error (a SyntaxError where the body is not JSON, a
  TypeError where the body stream fails).
\<close>

record response =
  status :: nat
  statusText :: string
  json_body :: "js_error + jsval"

text \<open>\<open>res.ok\<close>: the status is in the range 200 to 299.\<close>

definition ok :: "response \<Rightarrow> bool" where
  "ok res = (200 \<le> status res \<and> status res \<le> 299)"

text \<open>\<open>await res.json()\<close>\<close>

definition json :: "response \<Rightarrow> js_error + jsval" where
  "json res = json_body res"

text \<open>\<open>await res.json().catch(() => ({}))\<close>\<close>

definition json_or_empty :: "response \<Rightarrow> jsval" where
  "json_or_empty res = (case json res of Inl e \<Rightarrow> JObj [] | Inr v \<Rightarrow> v)"

text \<open>
  \<open>fetch\<close> either rejects (\<open>Inl\<close>) or resolves to a response. What the network answers to a
  request is not decided by the module, so every operation takes it as an argument.
\<close>

type_synonym net = "request \<Rightarrow> js_error + response"

datatype logarg = LVal jsval | LErr js_error

datatype event =
    Fetch request "js_error + response"
  | SetItem string string
  | RemoveItem string
  | Navigate string
  | ConsoleError string logarg

text \<open>
  The world: durable storage, the \<open>user\<close> cell of \<open>useState\<close>, and the effects so far, oldest
  first. A \<open>Fetch\<close> event keeps the request sent and how it settled.
\<close>

record world =
  localStorage :: "string \<Rightarrow> string option"
  user :: jsval
  trace :: "event list"

definition emit :: "event \<Rightarrow> world \<Rightarrow> world" where
  "emit e w = w\<lparr>trace := trace w @ [e]\<rparr>"

definition setUser :: "jsval \<Rightarrow> world \<Rightarrow> world" where
  "setUser v w = w\<lparr>user := v\<rparr>"

definition getItem :: "string \<Rightarrow> world \<Rightarrow> string option" where
  "getItem k w = localStorage w k"

definition setItem :: "string \<Rightarrow> string \<Rightarrow> world \<Rightarrow> world" where
  "setItem k v w = emit (SetItem k v) (w\<lparr>localStorage := (localStorage w)(k \<mapsto> v)\<rparr>)"

definition removeItem :: "string \<Rightarrow> world \<Rightarrow> world" where
  "removeItem k w = emit (RemoveItem k) (w\<lparr>localStorage := (localStorage w)(k := None)\<rparr>)"

definition navigate :: "string \<Rightarrow> world \<Rightarrow> world" where
  "navigate dest w = emit (Navigate dest) w"

definition console_error :: "string \<Rightarrow> logarg \<Rightarrow> world \<Rightarrow> world" where
  "console_error label a w = emit (ConsoleError label a) w"

text \<open>\<open>await fetch(...)\<close>: the request and its outcome are recorded.\<close>

definition fetch :: "net \<Rightarrow> request \<Rightarrow> world \<Rightarrow> world" where
  "fetch nw req w = emit (Fetch req (nw req)) w"

text \<open>\<open>import.meta.env.VITE_BACKEND_URL || "http://localhost:3000"\<close>\<close>

definition BACKEND_URL :: "string option \<Rightarrow> string" where
  "BACKEND_URL env =
     (case env of None \<Rightarrow> ''http://localhost:3000''
      | Some s \<Rightarrow> if s = [] then ''http://localhost:3000'' else s)"

section \<open>The session manager\<close>

definition me_request :: "string \<Rightarrow> string \<Rightarrow> request" where
  "me_request base token =
     \<lparr>http_method = ''GET'', url = base @ ''/user/me'',
      headers = [(''Content-Type'', ''application/json''),
                 (''Authorization'', ''Bearer '' @ token)],
      payload = None\<rparr>"

text \<open>The \<open>catch\<close> block of \<open>fetchUserData\<close>.\<close>

definition fetchUserData_catch :: "js_error \<Rightarrow> world \<Rightarrow> world" where
  "fetchUserData_catch e w =
     setUser JNull (console_error ''Error fetching user data:'' (LErr e) w)"

definition fetchUserData :: "string \<Rightarrow> net \<Rightarrow> string \<Rightarrow> world \<Rightarrow> world" where
  "fetchUserData base nw token w =
     (let req = me_request base token;
          w1 = fetch nw req w
      in case nw req of
           Inl e \<Rightarrow> fetchUserData_catch e w1
         | Inr res \<Rightarrow>
             if \<not> ok res then
               (let err = json_or_empty res;
                    w2 = console_error ''Failed to fetch user data''
                           (LVal (js_or (opt_prop err ''message'') (JStr (statusText res)))) w1;
                    w3 = removeItem ''token'' w2
                in setUser JNull w3)
             else
               (case json res of
                  Inl e \<Rightarrow> fetchUserData_catch e w1
                | Inr data \<Rightarrow>
                    (case get_prop data ''user'' of
                       Inl e \<Rightarrow> fetchUserData_catch e w1
                     | Inr u \<Rightarrow> setUser (js_or u JNull) w1)))"

text \<open>The effect run at mount: \<open>!token\<close> holds for a missing key and for the empty string.\<close>

definition initialize :: "string \<Rightarrow> net \<Rightarrow> world \<Rightarrow> world" where
  "initialize base nw w =
     (case getItem ''token'' w of
        None \<Rightarrow> setUser JNull w
      | Some token \<Rightarrow>
          if token = [] then setUser JNull w else fetchUserData base nw token w)"

definition logout :: "world \<Rightarrow> world" where
  "logout w = navigate ''/'' (setUser JNull (removeItem ''token'' w))"

definition login_request :: "string \<Rightarrow> string \<Rightarrow> string \<Rightarrow> request" where
  "login_request base username password =
     \<lparr>http_method = ''POST'', url = base @ ''/login'',
      headers = [(''Content-Type'', ''application/json'')],
      payload = Some (JObj [(''username'', JStr username), (''password'', JStr password)])\<rparr>"

text \<open>The outer \<open>catch\<close> block of \<open>login\<close>.\<close>

definition login_catch :: "js_error \<Rightarrow> world \<Rightarrow> jsval \<times> world" where
  "login_catch e w = (JStr ''unable to login'', console_error ''Login error:'' (LErr e) w)"

text \<open>
  The inner \<open>try\<close> of \<open>login\<close>: the profile fetch with the fresh token. The template literal
  of the \<open>Authorization\<close> header converts the token to a string inside this \<open>try\<close>.
\<close>

definition login_profile :: "string \<Rightarrow> net \<Rightarrow> jsval \<Rightarrow> world \<Rightarrow> world" where
  "login_profile base nw tok w =
     (case to_string tok of
        Inl e \<Rightarrow> setUser JNull w
      | Inr bearer \<Rightarrow>
          (let req = me_request base bearer;
               w1 = fetch nw req w
           in case nw req of
                Inl e \<Rightarrow> setUser JNull w1
              | Inr profileRes \<Rightarrow>
                  if ok profileRes then
                    (case json profileRes of
                       Inl e \<Rightarrow> setUser JNull w1
                     | Inr profileData \<Rightarrow>
                         (case get_prop profileData ''user'' of
                            Inl e \<Rightarrow> setUser JNull w1
                          | Inr u \<Rightarrow> setUser (js_or u JNull) w1))
                  else setUser JNull w1))"

definition login :: "string \<Rightarrow> net \<Rightarrow> string \<Rightarrow> string \<Rightarrow> world \<Rightarrow> jsval \<times> world" where
  "login base nw username password w =
     (let req = login_request base username password;
          w1 = fetch nw req w
      in case nw req of
           Inl e \<Rightarrow> login_catch e w1
         | Inr res \<Rightarrow>
             if \<not> ok res then
               (let data = json_or_empty res
                in (js_or (opt_prop data ''message'') (JStr ''login failed''), w1))
             else
               (case json res of
                  Inl e \<Rightarrow> login_catch e w1
                | Inr data \<Rightarrow>
                    if \<not> truthy data then (JStr ''no token'', w1)
                    else
                      (case get_prop data ''token'' of
                         Inl e \<Rightarrow> login_catch e w1
                       | Inr tok \<Rightarrow>
                           if \<not> truthy tok then (JStr ''no token'', w1)
                           else
                             (case to_string tok of
                                Inl e \<Rightarrow> login_catch e w1
                              | Inr stored \<Rightarrow>
                                  (let w2 = setItem ''token'' stored w1;
                                       w3 = login_profile base nw tok w2
                                   in (JStr '''', navigate ''/profile'' w3))))))"

definition register_request :: "string \<Rightarrow> jsval \<Rightarrow> request" where
  "register_request base userData =
     \<lparr>http_method = ''POST'', url = base @ ''/register'',
      headers = [(''Content-Type'', ''application/json'')],
      payload = Some userData\<rparr>"

definition register :: "string \<Rightarrow> net \<Rightarrow> jsval \<Rightarrow> world \<Rightarrow> jsval \<times> world" where
  "register base nw userData w =
     (let req = register_request base userData;
          w1 = fetch nw req w
      in case nw req of
           Inl e \<Rightarrow>
             (JStr ''unable to register'', console_error ''Register error:'' (LErr e) w1)
         | Inr res \<Rightarrow>
             (let data = json_or_empty res
              in if \<not> ok res then
                   (js_or (opt_prop data ''message'') (JStr ''registration failed''), w1)
                 else (JStr '''', navigate ''/success'' w1)))"

section \<open>Operations between their awaits\<close>

text \<open>
  The definitions above run an operation from its call to its return with nothing in
  between. The source suspends at every \<open>await\<close>, the effect at mount does not await
  \<open>fetchUserData()\<close>, and the handlers of the context can be called while an earlier call is
  suspended. A task is a call suspended at one of its awaits, with what the rest of the
  function still reads:
  \<^item> \<open>Me_fetch\<close>, \<open>Me_error\<close>, \<open>Me_body\<close>: \<open>fetchUserData\<close> at lines 31, 39 and 46;
  \<^item> \<open>Login_fetch\<close>, \<open>Login_error\<close>, \<open>Login_body\<close>, \<open>Login_me\<close>, \<open>Login_profile\<close>: \<open>login\<close> at lines
    79, 87, 90, 97 and 105;
  \<^item> \<open>Register_fetch\<close>, \<open>Register_body\<close>: \<open>register\<close> at lines 131 and 138.
\<close>

datatype task =
    Me_fetch request
  | Me_error response
  | Me_body response
  | Login_fetch request
  | Login_error response
  | Login_body response
  | Login_me request
  | Login_profile response
  | Register_fetch request
  | Register_body response

text \<open>A call is suspended at a task or has returned a value.\<close>

datatype progress = Pending task | Done jsval

text \<open>The context's operations as they are called: the effect at mount and the handlers.\<close>

datatype call = Mount | CallLogin string string | CallLogout | CallRegister jsval

text \<open>A call runs up to its first \<open>await\<close>; \<open>logout\<close> has none.\<close>

fun start :: "string \<Rightarrow> call \<Rightarrow> world \<Rightarrow> progress \<times> world" where
  "start base Mount w =
     (case getItem ''token'' w of
        None \<Rightarrow> (Done JUndefined, setUser JNull w)
      | Some token \<Rightarrow>
          if token = [] then (Done JUndefined, setUser JNull w)
          else (Pending (Me_fetch (me_request base token)), w))"
| "start base (CallLogin username password) w =
     (Pending (Login_fetch (login_request base username password)), w)"
| "start base CallLogout w = (Done JUndefined, logout w)"
| "start base (CallRegister userData) w =
     (Pending (Register_fetch (register_request base userData)), w)"

text \<open>
  A pending \<open>fetch\<close> settles with outcome \<open>r\<close>, and the task runs on to its next \<open>await\<close> or to
  its return. The \<open>Fetch\<close> event is recorded when the outcome is known. A task that awaits
  no \<open>fetch\<close> is left as it is.
\<close>

fun answer :: "string \<Rightarrow> task \<Rightarrow> js_error + response \<Rightarrow> world \<Rightarrow> progress \<times> world" where
  "answer base (Me_fetch req) r w =
     (let w1 = emit (Fetch req r) w
      in case r of
           Inl e \<Rightarrow> (Done JUndefined, fetchUserData_catch e w1)
         | Inr res \<Rightarrow>
             if \<not> ok res then (Pending (Me_error res), w1) else (Pending (Me_body res), w1))"
| "answer base (Login_fetch req) r w =
     (let w1 = emit (Fetch req r) w
      in case r of
           Inl e \<Rightarrow> (Done (fst (login_catch e w1)), snd (login_catch e w1))
         | Inr res \<Rightarrow>
             if \<not> ok res then (Pending (Login_error res), w1)
             else (Pending (Login_body res), w1))"
| "answer base (Login_me req) r w =
     (let w1 = emit (Fetch req r) w
      in case r of
           Inl e \<Rightarrow> (Done (JStr ''''), navigate ''/profile'' (setUser JNull w1))
         | Inr profileRes \<Rightarrow>
             if ok profileRes then (Pending (Login_profile profileRes), w1)
             else (Done (JStr ''''), navigate ''/profile'' (setUser JNull w1)))"
| "answer base (Register_fetch req) r w =
     (let w1 = emit (Fetch req r) w
      in case r of
           Inl e \<Rightarrow>
             (Done (JStr ''unable to register''),
              console_error ''Register error:'' (LErr e) w1)
         | Inr res \<Rightarrow> (Pending (Register_body res), w1))"
| "answer base t r w = (Pending t, w)"

text \<open>
  A pending body read \<open>res.json()\<close> settles as the response says, and the task runs on. A
  task that awaits a \<open>fetch\<close> is left as it is.
\<close>

fun read :: "string \<Rightarrow> task \<Rightarrow> world \<Rightarrow> progress \<times> world" where
  "read base (Me_error res) w =
     (let err = json_or_empty res;
          w2 = console_error ''Failed to fetch user data''
                 (LVal (js_or (opt_prop err ''message'') (JStr (statusText res)))) w;
          w3 = removeItem ''token'' w2
      in (Done JUndefined, setUser JNull w3))"
| "read base (Me_body res) w =
     (case json res of
        Inl e \<Rightarrow> (Done JUndefined, fetchUserData_catch e w)
      | Inr data \<Rightarrow>
          (case get_prop data ''user'' of
             Inl e \<Rightarrow> (Done JUndefined, fetchUserData_catch e w)
           | Inr u \<Rightarrow> (Done JUndefined, setUser (js_or u JNull) w)))"
| "read base (Login_error res) w =
     (let data = json_or_empty res
      in (Done (js_or (opt_prop data ''message'') (JStr ''login failed'')), w))"
| "read base (Login_body res) w =
     (case json res of
        Inl e \<Rightarrow> (Done (fst (login_catch e w)), snd (login_catch e w))
      | Inr data \<Rightarrow>
          if \<not> truthy data then (Done (JStr ''no token''), w)
          else
            (case get_prop data ''token'' of
               Inl e \<Rightarrow> (Done (fst (login_catch e w)), snd (login_catch e w))
             | Inr tok \<Rightarrow>
                 if \<not> truthy tok then (Done (JStr ''no token''), w)
                 else
                   (case to_string tok of
                      Inl e \<Rightarrow> (Done (fst (login_catch e w)), snd (login_catch e w))
                    | Inr stored \<Rightarrow>
                        (let w2 = setItem ''token'' stored w
                         in case to_string tok of
                              Inl e \<Rightarrow>
                                (Done (JStr ''''), navigate ''/profile'' (setUser JNull w2))
                            | Inr bearer \<Rightarrow>
                                (Pending (Login_me (me_request base bearer)), w2)))))"
| "read base (Login_profile profileRes) w =
     (let w1 =
        (case json profileRes of
           Inl e \<Rightarrow> setUser JNull w
         | Inr profileData \<Rightarrow>
             (case get_prop profileData ''user'' of
                Inl e \<Rightarrow> setUser JNull w
              | Inr u \<Rightarrow> setUser (js_or u JNull) w))
      in (Done (JStr ''''), navigate ''/profile'' w1))"
| "read base (Register_body res) w =
     (let data = json_or_empty res
      in if \<not> ok res then
           (Done (js_or (opt_prop data ''message'') (JStr ''registration failed'')), w)
         else (Done (JStr ''''), navigate ''/success'' w))"
| "read base t w = (Pending t, w)"

text \<open>The request a task waits for, where it awaits a \<open>fetch\<close>.\<close>

fun request_of :: "task \<Rightarrow> request option" where
  "request_of (Me_fetch req) = Some req"
| "request_of (Login_fetch req) = Some req"
| "request_of (Login_me req) = Some req"
| "request_of (Register_fetch req) = Some req"
| "request_of t = None"

text \<open>The awaits a task still has before it, at most.\<close>

fun rank :: "task \<Rightarrow> nat" where
  "rank (Me_fetch req) = 2"
| "rank (Login_fetch req) = 4"
| "rank (Login_body res) = 3"
| "rank (Login_me req) = 2"
| "rank (Register_fetch req) = 2"
| "rank t = 1"

fun level :: "progress \<Rightarrow> nat" where
  "level (Pending t) = rank t"
| "level (Done v) = 0"

text \<open>
  One call run to its return with nothing in between, each \<open>fetch\<close> answered by the network
  \<open>nw\<close>.
\<close>

function drive :: "string \<Rightarrow> net \<Rightarrow> progress \<times> world \<Rightarrow> jsval \<times> world" where
  "drive base nw (Done v, w) = (v, w)"
| "drive base nw (Pending t, w) =
     drive base nw
       (case request_of t of Some req \<Rightarrow> answer base t (nw req) w | None \<Rightarrow> read base t w)"
  by pat_completeness auto
termination
  by (relation "measure (\<lambda>(base, nw, p, w). level p)")
    (auto simp: Let_def split: task.splits sum.splits option.splits if_splits
       elim!: request_of.elims)

text \<open>
  The system: the world and the suspended calls. An action is a call, the settling of the
  \<open>fetch\<close> of the \<open>i\<close>-th suspended call with an outcome, or the settling of its body read.
\<close>

datatype action = Call call | Answer nat "js_error + response" | Read nat

fun place :: "task list \<Rightarrow> nat \<Rightarrow> progress \<Rightarrow> task list" where
  "place ts i (Pending t) = ts[i := t]"
| "place ts i (Done v) = take i ts @ drop (Suc i) ts"

fun exec :: "string \<Rightarrow> action \<Rightarrow> world \<times> task list \<Rightarrow> world \<times> task list" where
  "exec base (Call c) (w, ts) =
     (case start base c w of
        (Pending t, w') \<Rightarrow> (w', ts @ [t])
      | (Done v, w') \<Rightarrow> (w', ts))"
| "exec base (Answer i r) (w, ts) =
     (if i < length ts
      then (case answer base (ts ! i) r w of (p, w') \<Rightarrow> (w', place ts i p))
      else (w, ts))"
| "exec base (Read i) (w, ts) =
     (if i < length ts
      then (case read base (ts ! i) w of (p, w') \<Rightarrow> (w', place ts i p))
      else (w, ts))"

fun execs :: "string \<Rightarrow> action list \<Rightarrow> world \<times> task list \<Rightarrow> world \<times> task list" where
  "execs base [] s = s"
| "execs base (a # as) s = execs base as (exec base a s)"

text \<open>A schedule is sequential when every call is made while no earlier call is suspended.\<close>

fun sequential :: "string \<Rightarrow> action list \<Rightarrow> world \<times> task list \<Rightarrow> bool" where
  "sequential base [] s = True"
| "sequential base (Call c # as) s = (snd s = [] \<and> sequential base as (exec base (Call c) s))"
| "sequential base (a # as) s = sequential base as (exec base a s)"

text \<open>The world at mount: \<open>useState(null)\<close>, nothing done yet, storage as it was left.\<close>

definition mount :: "(string \<Rightarrow> string option) \<Rightarrow> world" where
  "mount store = \<lparr>localStorage = store, user = JNull, trace = []\<rparr>"

section \<open>Checks and consistency\<close>

text \<open>
  The most recent who-am-I request of a trace, with how it settled, and the most recent
  request to either the login or the who-am-I endpoint.
\<close>

fun is_me :: "string \<Rightarrow> event \<Rightarrow> bool" where
  "is_me base (Fetch req r) = (url req = base @ ''/user/me'')"
| "is_me base e = False"

fun is_check :: "string \<Rightarrow> event \<Rightarrow> bool" where
  "is_check base (Fetch req r) = (url req = base @ ''/user/me'' \<or> url req = base @ ''/login'')"
| "is_check base e = False"

fun last_where :: "(event \<Rightarrow> bool) \<Rightarrow> event list \<Rightarrow> event option" where
  "last_where P [] = None"
| "last_where P (e # es) =
     (case last_where P es of Some x \<Rightarrow> Some x | None \<Rightarrow> if P e then Some e else None)"

definition last_validation :: "string \<Rightarrow> event list \<Rightarrow> event option" where
  "last_validation base tr = last_where (is_me base) tr"

definition last_check :: "string \<Rightarrow> event list \<Rightarrow> event option" where
  "last_check base tr = last_where (is_check base) tr"

text \<open>A check succeeded when its request settled with a success status.\<close>

fun succeeded :: "event option \<Rightarrow> bool" where
  "succeeded (Some (Fetch req (Inr res))) = ok res"
| "succeeded e = False"

text \<open>The request is the who-am-I request for the token now in storage.\<close>

definition carries_token :: "string \<Rightarrow> world \<Rightarrow> request \<Rightarrow> bool" where
  "carries_token base w req =
     (case localStorage w ''token'' of None \<Rightarrow> False | Some t \<Rightarrow> req = me_request base t)"

text \<open>
  The session is consistent when the user cell is \<open>null\<close>, or the most recent who-am-I
  request carried the token now in storage and answered with a success status and the
  user now in the cell.
\<close>

fun validates :: "string \<Rightarrow> world \<Rightarrow> event option \<Rightarrow> bool" where
  "validates base w (Some (Fetch req (Inr res))) =
     (ok res \<and>
      (case json_body res of Inl e \<Rightarrow> False
       | Inr d \<Rightarrow> get_prop d ''user'' = Inr (user w)) \<and>
      carries_token base w req)"
| "validates base w e = False"

definition session_consistent :: "string \<Rightarrow> world \<Rightarrow> bool" where
  "session_consistent base w =
     (user w = JNull \<or> validates base w (last_validation base (trace w)))"

text \<open>
  What holds of the world while one call is suspended and no other runs: a pending
  who-am-I request carries the stored token; a who-am-I response whose body is being read
  is the most recent one and was asked with the stored token; a call that has not yet
  written anything has left the session consistent.
\<close>

fun answered_by :: "string \<Rightarrow> world \<Rightarrow> response \<Rightarrow> event option \<Rightarrow> bool" where
  "answered_by base w res (Some (Fetch req (Inr res'))) =
     (res' = res \<and> carries_token base w req)"
| "answered_by base w res e = False"

fun task_inv :: "string \<Rightarrow> task \<Rightarrow> world \<Rightarrow> bool" where
  "task_inv base (Me_fetch req) w = carries_token base w req"
| "task_inv base (Me_error res) w = True"
| "task_inv base (Me_body res) w =
     (ok res \<and> answered_by base w res (last_validation base (trace w)))"
| "task_inv base (Login_fetch req) w =
     (session_consistent base w \<and> url req = base @ ''/login'')"
| "task_inv base (Login_error res) w = session_consistent base w"
| "task_inv base (Login_body res) w = session_consistent base w"
| "task_inv base (Login_me req) w = carries_token base w req"
| "task_inv base (Login_profile res) w =
     (ok res \<and> answered_by base w res (last_validation base (trace w)))"
| "task_inv base (Register_fetch req) w =
     (session_consistent base w \<and> url req = base @ ''/register'')"
| "task_inv base (Register_body res) w = session_consistent base w"

fun progress_inv :: "string \<Rightarrow> progress \<Rightarrow> world \<Rightarrow> bool" where
  "progress_inv base (Pending t) w = task_inv base t w"
| "progress_inv base (Done v) w = session_consistent base w"

fun sys_inv :: "string \<Rightarrow> world \<times> task list \<Rightarrow> bool" where
  "sys_inv base (w, []) = session_consistent base w"
| "sys_inv base (w, [t]) = task_inv base t w"
| "sys_inv base (w, ts) = False"


fun is_diagnostic :: "event \<Rightarrow> bool" where
  "is_diagnostic (ConsoleError label a) = True"
| "is_diagnostic e = False"

section \<open>Example servers\<close>

definition reply :: "nat \<Rightarrow> string \<Rightarrow> js_error + jsval \<Rightarrow> js_error + response" where
  "reply code txt b = Inr \<lparr>status = code, statusText = txt, json_body = b\<rparr>"

text \<open>A server answering the three endpoints with the given outcomes.\<close>

definition server ::
  "string \<Rightarrow> js_error + response \<Rightarrow> js_error + response \<Rightarrow> js_error + response \<Rightarrow> net" where
  "server base on_login on_me on_register req =
     (if url req = base @ ''/login'' then on_login
      else if url req = base @ ''/user/me'' then on_me
      else on_register)"

definition local_url :: string where
  "local_url = BACKEND_URL None"

definition token_abc :: "js_error + response" where
  "token_abc = reply 200 ''OK'' (Inr (JObj [(''token'', JStr ''abc'')]))"

definition user_1 :: jsval where
  "user_1 = JObj [(''id'', JNum (Number True ''1''))]"

definition profile_1 :: "js_error + response" where
  "profile_1 = reply 200 ''OK'' (Inr (JObj [(''user'', user_1)]))"

definition bad_creds :: "js_error + response" where
  "bad_creds = reply 401 ''Unauthorized'' (Inr (JObj [(''message'', JStr ''bad creds'')]))"

definition numeric_message :: "js_error + response" where
  "numeric_message =
     reply 401 ''Unauthorized'' (Inr (JObj [(''message'', JNum (Number True ''123''))]))"

definition name_taken :: "js_error + response" where
  "name_taken = reply 409 ''Conflict'' (Inr (JObj [(''message'', JStr ''name taken'')]))"

definition created :: "js_error + response" where
  "created = reply 201 ''Created'' (Inr (JObj []))"

definition bad_request :: "js_error + response" where
  "bad_request = reply 400 ''Bad Request'' (Inr (JObj []))"

definition null_body :: "js_error + response" where
  "null_body = reply 200 ''OK'' (Inr JNull)"

definition garbled :: "js_error + response" where
  "garbled = reply 200 ''OK'' (Inl SyntaxError)"

definition server_good :: net where
  "server_good = server local_url token_abc profile_1 created"

definition server_rejecting :: net where
  "server_rejecting = server local_url bad_creds bad_creds bad_request"

definition server_numeric :: net where
  "server_numeric = server local_url numeric_message numeric_message name_taken"

definition server_down :: net where
  "server_down = server local_url (Inl NetworkError) (Inl NetworkError) (Inl NetworkError)"

definition server_stale :: net where
  "server_stale = server local_url token_abc bad_creds created"

definition server_no_user :: net where
  "server_no_user = server local_url created created created"

definition server_null :: net where
  "server_null = server local_url null_body null_body created"

definition server_garbled :: net where
  "server_garbled = server local_url garbled garbled created"

definition first_visit :: world where
  "first_visit = mount Map.empty"

definition holding :: "string \<Rightarrow> world" where
  "holding t = mount (Map.empty(''token'' \<mapsto> t))"

text \<open>A login that succeeds, followed by a login that the server refuses with status 401.\<close>

definition login_then_refused :: "action list" where
  "login_then_refused =
     [Call (CallLogin ''u'' ''good''), Answer 0 token_abc, Read 0, Answer 0 profile_1, Read 0,
      Call (CallLogin ''u'' ''bad''), Answer 0 bad_creds, Read 0]"

text \<open>
  A logout called while the who-am-I request of the mount is still pending, which then
  answers.
\<close>

definition logout_overtakes :: "action list" where
  "logout_overtakes = [Call Mount, Call CallLogout, Answer 0 profile_1, Read 0]"

section \<open>Basic facts\<close>

lemmas effects =
  emit_def setUser_def getItem_def setItem_def removeItem_def navigate_def console_error_def
  fetch_def

lemmas examples =
  reply_def server_def local_url_def BACKEND_URL_def token_abc_def user_1_def profile_1_def
  bad_creds_def numeric_message_def name_taken_def created_def bad_request_def null_body_def
  garbled_def server_good_def server_rejecting_def server_numeric_def server_down_def
  server_stale_def server_no_user_def server_null_def server_garbled_def holding_def
  first_visit_def mount_def


lemma get_prop_truthy: "get_prop d k = Inr v \<Longrightarrow> truthy v \<Longrightarrow> truthy d"
  by (cases d) auto

lemma opt_prop_get_prop:
  "opt_prop d k = (case get_prop d k of Inl e \<Rightarrow> JUndefined | Inr v \<Rightarrow> v)"
  by (cases d) auto

text \<open>
  \<open>message || fallback\<close> on the body of a response that is not a success: the \<open>message\<close> of
  the parsed body where that is truthy, the fallback in every other case.
\<close>

lemma message_read:
  assumes "json_body res = Inr body" and "get_prop body ''message'' = Inr msg" and "truthy msg"
  shows "js_or (opt_prop (json_or_empty res) ''message'') fallback = msg"
  using assms by (simp add: json_or_empty_def json_def opt_prop_get_prop js_or_def)

lemma message_fallback:
  assumes "\<forall>body msg. json_body res = Inr body \<and> get_prop body ''message'' = Inr msg \<longrightarrow>
             \<not> truthy msg"
  shows "js_or (opt_prop (json_or_empty res) ''message'') fallback = fallback"
proof (cases "json_body res")
  case (Inl e)
  then show ?thesis
    by (simp add: json_or_empty_def json_def js_or_def)
next
  case (Inr body)
  show ?thesis
  proof (cases "get_prop body ''message''")
    case (Inl e)
    with Inr show ?thesis
      by (simp add: json_or_empty_def json_def opt_prop_get_prop js_or_def)
  next
    case msg: (Inr msg)
    with Inr assms have "\<not> truthy msg" by blast
    with Inr msg show ?thesis
      by (simp add: json_or_empty_def json_def opt_prop_get_prop js_or_def)
  qed
qed

section \<open>logout\<close>

text \<open>
  C7. \<open>logout\<close> is a total function of the world with no failing branch. Whatever the world
  was, afterwards the \<open>token\<close> key is gone from storage, the user cell is \<open>null\<close>, and the
  effects added are the removal and then the navigation to \<open>/\<close>.
\<close>

theorem logout_clears:
  "localStorage (logout w) ''token'' = None \<and> user (logout w) = JNull \<and>
   trace (logout w) = trace w @ [RemoveItem ''token'', Navigate ''/'']"
  by (simp add: logout_def effects)

section \<open>initialize\<close>

text \<open>
  C6. With no \<open>token\<close> key in storage, \<open>initialize\<close> sets the user cell to \<open>null\<close> and adds no
  effect at all: no request is sent, and storage is as before.
\<close>

theorem initialize_no_token:
  assumes "localStorage w ''token'' = None"
  shows "user (initialize base nw w) = JNull \<and>
         trace (initialize base nw w) = trace w \<and>
         localStorage (initialize base nw w) = localStorage w"
  using assms by (simp add: initialize_def effects)

theorem initialize_no_token_witness:
  "localStorage (mount Map.empty) ''token'' = None \<and>
   user (initialize local_url server_good (mount Map.empty)) = JNull \<and>
   trace (initialize local_url server_good (mount Map.empty)) = [] \<and>
   localStorage (initialize local_url server_good (mount Map.empty)) = Map.empty"
proof -
  have h: "localStorage (mount Map.empty) ''token'' = None"
    by (simp add: mount_def)
  show ?thesis
    using h initialize_no_token [OF h, of local_url server_good] by (simp add: mount_def)
qed

text \<open>
  C3. With a token \<open>t\<close> in storage, \<open>initialize\<close> removes it exactly when the who-am-I request
  settles with a response whose status is not a success. In that case the user cell ends
  \<open>null\<close> and one diagnostic is logged before the removal. When the request rejects, or a
  success response has a body whose read rejects or on which reading \<open>user\<close> throws, storage
  is left as it was, the user cell ends \<open>null\<close> and one diagnostic is logged.
\<close>

theorem initialize_stored_token:
  assumes "localStorage w ''token'' = Some t" and "t \<noteq> []"
  shows
    "(localStorage (initialize base nw w) ''token'' = None \<longleftrightarrow>
        (\<exists>res. nw (me_request base t) = Inr res \<and> \<not> ok res)) \<and>
     (\<forall>res. nw (me_request base t) = Inr res \<and> \<not> ok res \<longrightarrow>
        user (initialize base nw w) = JNull \<and>
        trace (initialize base nw w) = trace w @
          [Fetch (me_request base t) (Inr res),
           ConsoleError ''Failed to fetch user data''
             (LVal (js_or (opt_prop (json_or_empty res) ''message'') (JStr (statusText res)))),
           RemoveItem ''token'']) \<and>
     (\<forall>e. nw (me_request base t) = Inl e \<or>
          (\<exists>res. nw (me_request base t) = Inr res \<and> ok res \<and>
             (json res = Inl e \<or> (\<exists>d. json res = Inr d \<and> get_prop d ''user'' = Inl e))) \<longrightarrow>
        localStorage (initialize base nw w) = localStorage w \<and>
        user (initialize base nw w) = JNull \<and>
        trace (initialize base nw w) = trace w @
          [Fetch (me_request base t) (nw (me_request base t)),
           ConsoleError ''Error fetching user data:'' (LErr e)])"
  using assms
  by (auto simp: initialize_def fetchUserData_def fetchUserData_catch_def Let_def effects
        split: sum.splits)

theorem initialize_stored_token_witness:
  "localStorage (initialize local_url server_rejecting (holding ''abc'')) ''token'' = None \<and>
   user (initialize local_url server_rejecting (holding ''abc'')) = JNull \<and>
   trace (initialize local_url server_rejecting (holding ''abc'')) =
     [Fetch (me_request local_url ''abc'') bad_creds,
      ConsoleError ''Failed to fetch user data'' (LVal (JStr ''bad creds'')),
      RemoveItem ''token''] \<and>
   localStorage (initialize local_url server_down (holding ''abc'')) ''token'' = Some ''abc'' \<and>
   user (initialize local_url server_down (holding ''abc'')) = JNull \<and>
   trace (initialize local_url server_down (holding ''abc'')) =
     [Fetch (me_request local_url ''abc'') (Inl NetworkError),
      ConsoleError ''Error fetching user data:'' (LErr NetworkError)]"
proof -
  have h1: "localStorage (holding ''abc'') ''token'' = Some ''abc''"
    by (simp add: holding_def mount_def)
  have h2: "''abc'' \<noteq> []" by simp
  have r: "server_rejecting (me_request local_url ''abc'') = bad_creds"
    by (simp add: examples me_request_def)
  have d: "server_down (me_request local_url ''abc'') = Inl NetworkError"
    by (simp add: examples me_request_def)
  show ?thesis
    using initialize_stored_token [OF h1 h2, of local_url server_rejecting]
      initialize_stored_token [OF h1 h2, of local_url server_down] r d
    by (simp add: bad_creds_def reply_def ok_def json_or_empty_def json_def js_or_def
          holding_def mount_def)
qed

text \<open>
  C9, as stated: whenever the who-am-I request answers with a success status and the body
  has no \<open>user\<close> field, the user cell is set to \<open>null\<close> without an error being reported and
  the token stays. This fails on a success response whose body is the JSON value \<open>null\<close>:
  it has no \<open>user\<close> field, reading \<open>data.user\<close> throws, and the \<open>catch\<close> block logs a
  diagnostic.
\<close>

theorem null_body_counterexample:
  "\<not> (user (initialize local_url server_null (holding ''abc'')) = JNull \<and>
      \<not> list_ex is_diagnostic (trace (initialize local_url server_null (holding ''abc''))) \<and>
      localStorage (initialize local_url server_null (holding ''abc'')) ''token'' =
        Some ''abc'')"
  by (simp add: initialize_def fetchUserData_def fetchUserData_catch_def me_request_def
        json_def ok_def examples effects)

text \<open>
  C9, amended. With a token \<open>t\<close> in storage and a who-am-I response with a success status
  and a parsed body: where reading \<open>user\<close> on the body gives \<open>undefined\<close> (the body is not
  \<open>null\<close> and has no such field), the user cell is set to \<open>null\<close>, the only effect added is
  the request, so nothing is logged, and storage is as before; where the body is \<open>null\<close>,
  the user cell is set to \<open>null\<close> and storage is as before, but one diagnostic is logged
  after the request.
\<close>

theorem initialize_no_user_field:
  assumes "localStorage w ''token'' = Some t" and "t \<noteq> []"
    and "nw (me_request base t) = Inr res" and "ok res"
    and "json_body res = Inr data"
  shows "(get_prop data ''user'' = Inr JUndefined \<longrightarrow>
           user (initialize base nw w) = JNull \<and>
           localStorage (initialize base nw w) = localStorage w \<and>
           trace (initialize base nw w) = trace w @ [Fetch (me_request base t) (Inr res)]) \<and>
         (data = JNull \<longrightarrow>
           user (initialize base nw w) = JNull \<and>
           localStorage (initialize base nw w) = localStorage w \<and>
           trace (initialize base nw w) = trace w @
             [Fetch (me_request base t) (Inr res),
              ConsoleError ''Error fetching user data:'' (LErr TypeError)])"
  using assms
  by (simp add: initialize_def fetchUserData_def fetchUserData_catch_def Let_def json_def
        js_or_def effects)

theorem initialize_no_user_field_witness:
  "user (initialize local_url server_no_user (holding ''abc'')) = JNull \<and>
   localStorage (initialize local_url server_no_user (holding ''abc'')) ''token'' = Some ''abc'' \<and>
   trace (initialize local_url server_no_user (holding ''abc'')) =
     [Fetch (me_request local_url ''abc'') created] \<and>
   user (initialize local_url server_null (holding ''abc'')) = JNull \<and>
   localStorage (initialize local_url server_null (holding ''abc'')) ''token'' = Some ''abc'' \<and>
   trace (initialize local_url server_null (holding ''abc'')) =
     [Fetch (me_request local_url ''abc'') null_body,
      ConsoleError ''Error fetching user data:'' (LErr TypeError)]"
proof -
  let ?res = "\<lparr>status = 201, statusText = ''Created'', json_body = Inr (JObj [])\<rparr>"
  let ?nul = "\<lparr>status = 200, statusText = ''OK'', json_body = Inr JNull\<rparr>"
  have h1: "localStorage (holding ''abc'') ''token'' = Some ''abc''"
    by (simp add: holding_def mount_def)
  have h2: "''abc'' \<noteq> []" by simp
  have a3: "server_no_user (me_request local_url ''abc'') = Inr ?res"
    by (simp add: examples me_request_def)
  have a4: "ok ?res" by (simp add: ok_def)
  have a5: "json_body ?res = Inr (JObj [])" by simp
  have b3: "server_null (me_request local_url ''abc'') = Inr ?nul"
    by (simp add: examples me_request_def)
  have b4: "ok ?nul" by (simp add: ok_def)
  have b5: "json_body ?nul = Inr JNull" by simp
  show ?thesis
    using initialize_no_user_field
        [where nw = server_no_user and base = local_url, OF h1 h2 a3 a4 a5]
      initialize_no_user_field
        [where nw = server_null and base = local_url, OF h1 h2 b3 b4 b5]
    by (simp add: holding_def mount_def created_def null_body_def reply_def)
qed

section \<open>login\<close>

text \<open>
  C2. When the login endpoint answers with a success status and a body whose \<open>token\<close> is
  truthy and converts to the string \<open>stored\<close> (a string token converts to itself), and the
  who-am-I request made with that token answers with a success status and a body whose
  \<open>user\<close> is truthy, then \<open>login\<close> returns the empty string, the token is in storage, the
  user cell holds that user, and the effects added are, in this order: the login request,
  the write of the token, the who-am-I request, the navigation to \<open>/profile\<close>.
\<close>

theorem login_success:
  assumes "nw (login_request base username password) = Inr res"
    and "ok res" and "json_body res = Inr data"
    and "get_prop data ''token'' = Inr tok" and "truthy tok"
    and "to_string tok = Inr stored"
    and "nw (me_request base stored) = Inr profileRes"
    and "ok profileRes" and "json_body profileRes = Inr profileData"
    and "get_prop profileData ''user'' = Inr u" and "truthy u"
  shows "login base nw username password w =
         (JStr '''',
          w\<lparr>localStorage := (localStorage w)(''token'' \<mapsto> stored),
            user := u,
            trace := trace w @
              [Fetch (login_request base username password) (Inr res),
               SetItem ''token'' stored,
               Fetch (me_request base stored) (Inr profileRes),
               Navigate ''/profile'']\<rparr>)"
proof -
  from assms(4,5) have "truthy data" by (rule get_prop_truthy)
  with assms show ?thesis
    by (simp add: login_def login_profile_def json_def js_or_def effects)
qed

theorem login_success_witness:
  "login local_url server_good ''u'' ''good'' (mount Map.empty) =
     (JStr '''',
      \<lparr>localStorage = Map.empty(''token'' \<mapsto> ''abc''), user = user_1,
       trace =
         [Fetch (login_request local_url ''u'' ''good'') token_abc,
          SetItem ''token'' ''abc'',
          Fetch (me_request local_url ''abc'') profile_1,
          Navigate ''/profile'']\<rparr>)"
proof -
  let ?res = "\<lparr>status = 200, statusText = ''OK'',
                json_body = Inr (JObj [(''token'', JStr ''abc'')])\<rparr>"
  let ?pres = "\<lparr>status = 200, statusText = ''OK'',
                 json_body = Inr (JObj [(''user'', user_1)])\<rparr>"
  have h1: "server_good (login_request local_url ''u'' ''good'') = Inr ?res"
    by (simp add: examples login_request_def)
  have h2: "ok ?res" by (simp add: ok_def)
  have h3: "json_body ?res = Inr (JObj [(''token'', JStr ''abc'')])" by simp
  have h4: "get_prop (JObj [(''token'', JStr ''abc'')]) ''token'' = Inr (JStr ''abc'')"
    by simp
  have h5: "truthy (JStr ''abc'')" by simp
  have h6: "to_string (JStr ''abc'') = Inr ''abc''" by simp
  have h7: "server_good (me_request local_url ''abc'') = Inr ?pres"
    by (simp add: examples me_request_def)
  have h8: "ok ?pres" by (simp add: ok_def)
  have h9: "json_body ?pres = Inr (JObj [(''user'', user_1)])" by simp
  have h10: "get_prop (JObj [(''user'', user_1)]) ''user'' = Inr user_1" by simp
  have h11: "truthy user_1" by (simp add: user_1_def)
  show ?thesis
    using login_success [where nw = server_good and base = local_url,
        OF h1 h2 h3 h4 h5 h6 h7 h8 h9 h10 h11, of "mount Map.empty"]
    by (simp add: mount_def token_abc_def profile_1_def reply_def)
qed




text \<open>
  C10. When the login request rejects, or answers with a success status and a body whose
  read rejects (it is not JSON), \<open>login\<close> returns the fixed string \<open>unable to login\<close>.
  Storage and the user cell are as before, and the effects added are the request and one
  diagnostic: no write to storage and no navigation.
\<close>

theorem login_unable:
  assumes "nw (login_request base username password) = Inl e \<or>
           (\<exists>res. nw (login_request base username password) = Inr res \<and> ok res \<and>
              json_body res = Inl e)"
  shows "fst (login base nw username password w) = JStr ''unable to login'' \<and>
         localStorage (snd (login base nw username password w)) = localStorage w \<and>
         user (snd (login base nw username password w)) = user w \<and>
         trace (snd (login base nw username password w)) =
           trace w @
             [Fetch (login_request base username password)
                (nw (login_request base username password)),
              ConsoleError ''Login error:'' (LErr e)]"
  using assms
  by (auto simp: login_def login_catch_def json_def effects)

theorem login_unable_witness:
  "fst (login local_url server_down ''u'' ''good'' (holding ''old'')) = JStr ''unable to login'' \<and>
   trace (snd (login local_url server_down ''u'' ''good'' (holding ''old''))) =
     [Fetch (login_request local_url ''u'' ''good'') (Inl NetworkError),
      ConsoleError ''Login error:'' (LErr NetworkError)] \<and>
   fst (login local_url server_garbled ''u'' ''good'' (holding ''old'')) =
     JStr ''unable to login'' \<and>
   trace (snd (login local_url server_garbled ''u'' ''good'' (holding ''old''))) =
     [Fetch (login_request local_url ''u'' ''good'') garbled,
      ConsoleError ''Login error:'' (LErr SyntaxError)] \<and>
   localStorage (snd (login local_url server_garbled ''u'' ''good'' (holding ''old''))) =
     Map.empty(''token'' \<mapsto> ''old'') \<and>
   user (snd (login local_url server_garbled ''u'' ''good'' (holding ''old''))) = JNull"
proof -
  let ?res = "\<lparr>status = 200, statusText = ''OK'', json_body = Inl SyntaxError\<rparr>"
  have d: "server_down (login_request local_url ''u'' ''good'') = Inl NetworkError"
    by (simp add: examples login_request_def)
  have g: "server_garbled (login_request local_url ''u'' ''good'') = Inr ?res"
    by (simp add: examples login_request_def)
  have h1: "server_down (login_request local_url ''u'' ''good'') = Inl NetworkError \<or>
    (\<exists>res. server_down (login_request local_url ''u'' ''good'') = Inr res \<and> ok res \<and>
       json_body res = Inl NetworkError)"
    using d by simp
  have h2: "server_garbled (login_request local_url ''u'' ''good'') = Inl SyntaxError \<or>
    (\<exists>res. server_garbled (login_request local_url ''u'' ''good'') = Inr res \<and> ok res \<and>
       json_body res = Inl SyntaxError)"
    using g by (simp add: ok_def)
  show ?thesis
    using login_unable [where nw = server_down and base = local_url, OF h1,
        of "holding ''old''"]
      login_unable [where nw = server_garbled and base = local_url, OF h2,
        of "holding ''old''"] d g
    by (simp add: holding_def mount_def garbled_def reply_def)
qed

text \<open>
  C5. When the login endpoint answered with a success status and a truthy \<open>token\<close> that
  converts to the string \<open>stored\<close>, and the who-am-I request made with it fails (it rejects,
  or answers with a status that is not a success, or answers with a success status and a
  body whose read rejects or on which reading \<open>user\<close> throws), then the user cell is set to
  \<open>null\<close> whatever it held, the token stays in storage, the navigation to \<open>/profile\<close> is still
  the last effect, and \<open>login\<close> returns the empty string.
\<close>

theorem login_profile_failure:
  assumes "nw (login_request base username password) = Inr res"
    and "ok res" and "json_body res = Inr data"
    and "get_prop data ''token'' = Inr tok" and "truthy tok"
    and "to_string tok = Inr stored"
    and "nw (me_request base stored) = Inl e \<or>
         (\<exists>profileRes. nw (me_request base stored) = Inr profileRes \<and>
            (\<not> ok profileRes \<or> (\<exists>e'. json_body profileRes = Inl e') \<or>
             (\<exists>d. json_body profileRes = Inr d \<and> get_prop d ''user'' = Inl e)))"
  shows "login base nw username password w =
         (JStr '''',
          w\<lparr>localStorage := (localStorage w)(''token'' \<mapsto> stored),
            user := JNull,
            trace := trace w @
              [Fetch (login_request base username password) (Inr res),
               SetItem ''token'' stored,
               Fetch (me_request base stored) (nw (me_request base stored)),
               Navigate ''/profile'']\<rparr>)"
proof -
  from assms(4,5) have "truthy data" by (rule get_prop_truthy)
  with assms(1-6) have unfolded:
    "login base nw username password w =
       (JStr '''',
        navigate ''/profile''
          (login_profile base nw tok (setItem ''token'' stored
             (fetch nw (login_request base username password) w))))"
    by (simp add: login_def json_def)
  from assms(6,7) have
    "login_profile base nw tok (setItem ''token'' stored
       (fetch nw (login_request base username password) w)) =
     setUser JNull (fetch nw (me_request base stored)
       (setItem ''token'' stored
          (fetch nw (login_request base username password) w)))"
    by (auto simp: login_profile_def json_def Let_def)
  with unfolded assms(1) show ?thesis
    by (simp add: effects)
qed

theorem login_profile_failure_witness:
  "login local_url server_stale ''u'' ''good'' ((mount Map.empty)\<lparr>user := user_1\<rparr>) =
     (JStr '''',
      \<lparr>localStorage = Map.empty(''token'' \<mapsto> ''abc''), user = JNull,
       trace =
         [Fetch (login_request local_url ''u'' ''good'') token_abc,
          SetItem ''token'' ''abc'',
          Fetch (me_request local_url ''abc'') bad_creds,
          Navigate ''/profile'']\<rparr>)"
proof -
  let ?res = "\<lparr>status = 200, statusText = ''OK'',
                json_body = Inr (JObj [(''token'', JStr ''abc'')])\<rparr>"
  let ?pres = "\<lparr>status = 401, statusText = ''Unauthorized'',
                 json_body = Inr (JObj [(''message'', JStr ''bad creds'')])\<rparr>"
  have h1: "server_stale (login_request local_url ''u'' ''good'') = Inr ?res"
    by (simp add: examples login_request_def)
  have h2: "ok ?res" by (simp add: ok_def)
  have h3: "json_body ?res = Inr (JObj [(''token'', JStr ''abc'')])" by simp
  have h4: "get_prop (JObj [(''token'', JStr ''abc'')]) ''token'' = Inr (JStr ''abc'')"
    by simp
  have h5: "truthy (JStr ''abc'')" by simp
  have h6: "to_string (JStr ''abc'') = Inr ''abc''" by simp
  have p: "server_stale (me_request local_url ''abc'') = Inr ?pres"
    by (simp add: examples me_request_def)
  have h7: "server_stale (me_request local_url ''abc'') = Inl TypeError \<or>
    (\<exists>profileRes. server_stale (me_request local_url ''abc'') = Inr profileRes \<and>
       (\<not> ok profileRes \<or> (\<exists>e'. json_body profileRes = Inl e') \<or>
        (\<exists>d. json_body profileRes = Inr d \<and> get_prop d ''user'' = Inl TypeError)))"
    using p by (simp add: ok_def)
  show ?thesis
    using login_profile_failure [where nw = server_stale and base = local_url,
        OF h1 h2 h3 h4 h5 h6 h7, of "(mount Map.empty)\<lparr>user := user_1\<rparr>"] p
    by (simp add: mount_def token_abc_def bad_creds_def reply_def)
qed

section \<open>register\<close>

text \<open>
  C8. \<open>register\<close> never changes storage or the user cell. On a response with a success
  status it returns the empty string and the effects added are the request and the
  navigation to \<open>/success\<close>. On a response with another status the only effect added is the
  request, and it returns the \<open>message\<close> of the parsed body where that is truthy, and the
  fixed string \<open>registration failed\<close> in every other case (the body read rejects, the body
  is \<open>null\<close>, the \<open>message\<close> is missing or falsy).
\<close>

theorem register_frame:
  "localStorage (snd (register base nw userData w)) = localStorage w \<and>
   user (snd (register base nw userData w)) = user w \<and>
   (\<forall>res. nw (register_request base userData) = Inr res \<and> ok res \<longrightarrow>
      fst (register base nw userData w) = JStr '''' \<and>
      trace (snd (register base nw userData w)) =
        trace w @ [Fetch (register_request base userData) (Inr res), Navigate ''/success'']) \<and>
   (\<forall>res body msg. nw (register_request base userData) = Inr res \<and> \<not> ok res \<and>
      json_body res = Inr body \<and> get_prop body ''message'' = Inr msg \<and> truthy msg \<longrightarrow>
      fst (register base nw userData w) = msg) \<and>
   (\<forall>res. nw (register_request base userData) = Inr res \<and> \<not> ok res \<and>
      (\<forall>body msg. json_body res = Inr body \<and> get_prop body ''message'' = Inr msg \<longrightarrow>
         \<not> truthy msg) \<longrightarrow>
      fst (register base nw userData w) = JStr ''registration failed'') \<and>
   (\<forall>res. nw (register_request base userData) = Inr res \<and> \<not> ok res \<longrightarrow>
      trace (snd (register base nw userData w)) =
        trace w @ [Fetch (register_request base userData) (Inr res)])"
proof -
  have frame: "localStorage (snd (register base nw userData w)) = localStorage w \<and>
    user (snd (register base nw userData w)) = user w"
    by (auto simp: register_def Let_def effects split: sum.splits)
  have success: "fst (register base nw userData w) = JStr '''' \<and>
      trace (snd (register base nw userData w)) =
        trace w @ [Fetch (register_request base userData) (Inr res), Navigate ''/success'']"
    if "nw (register_request base userData) = Inr res" and "ok res" for res
    using that by (simp add: register_def Let_def effects)
  have failure: "register base nw userData w =
      (js_or (opt_prop (json_or_empty res) ''message'') (JStr ''registration failed''),
       fetch nw (register_request base userData) w)"
    if "nw (register_request base userData) = Inr res" and "\<not> ok res" for res
    using that by (simp add: register_def Let_def)
  show ?thesis
    using frame success
    by (auto simp: failure message_read message_fallback effects)
qed

theorem register_frame_witness:
  "fst (register local_url server_good (JObj []) (holding ''old'')) = JStr '''' \<and>
   trace (snd (register local_url server_good (JObj []) (holding ''old''))) =
     [Fetch (register_request local_url (JObj [])) created, Navigate ''/success''] \<and>
   localStorage (snd (register local_url server_good (JObj []) (holding ''old''))) =
     Map.empty(''token'' \<mapsto> ''old'') \<and>
   user (snd (register local_url server_good (JObj []) (holding ''old''))) = JNull \<and>
   fst (register local_url server_numeric (JObj []) (holding ''old'')) = JStr ''name taken'' \<and>
   trace (snd (register local_url server_numeric (JObj []) (holding ''old''))) =
     [Fetch (register_request local_url (JObj [])) name_taken] \<and>
   fst (register local_url server_rejecting (JObj []) (holding ''old'')) =
     JStr ''registration failed'' \<and>
   trace (snd (register local_url server_rejecting (JObj []) (holding ''old''))) =
     [Fetch (register_request local_url (JObj [])) bad_request]"
proof -
  have g: "server_good (register_request local_url (JObj [])) = created"
    by (simp add: examples register_request_def)
  have n: "server_numeric (register_request local_url (JObj [])) = name_taken"
    by (simp add: examples register_request_def)
  have r: "server_rejecting (register_request local_url (JObj [])) = bad_request"
    by (simp add: examples register_request_def)
  show ?thesis
    using register_frame [of local_url server_good "JObj []" "holding ''old''"]
      register_frame [of local_url server_numeric "JObj []" "holding ''old''"]
      register_frame [of local_url server_rejecting "JObj []" "holding ''old''"] g n r
    by (simp add: created_def name_taken_def bad_request_def reply_def ok_def holding_def
          mount_def)
qed

section \<open>Calls run without interruption\<close>

text \<open>
  Run from its call to its return with no other action in between, each call does what
  the operation of the first part does: the two readings of the source agree.
\<close>

lemma drive_mount: "drive base nw (start base Mount w) = (JUndefined, initialize base nw w)"
  by (simp add: initialize_def fetchUserData_def Let_def fetch_def
        split: option.splits sum.splits)

lemma drive_logout: "drive base nw (start base CallLogout w) = (JUndefined, logout w)"
  by simp

lemma drive_register:
  "drive base nw (start base (CallRegister userData) w) = register base nw userData w"
  by (simp add: register_def Let_def fetch_def split: sum.splits)

lemma drive_login:
  "drive base nw (start base (CallLogin username password) w) =
   login base nw username password w"
  by (simp add: login_def login_profile_def Let_def fetch_def split: sum.splits)

section \<open>Sequences of operations\<close>

lemma last_where_append:
  "last_where P (es @ fs) =
     (case last_where P fs of Some x \<Rightarrow> Some x | None \<Rightarrow> last_where P es)"
  by (induction es) (auto split: option.splits)

lemma url_login [simp]: "url (login_request base username password) = base @ ''/login''"
  by (simp add: login_request_def)

lemma url_register [simp]: "url (register_request base userData) = base @ ''/register''"
  by (simp add: register_request_def)

lemma url_me [simp]: "url (me_request base t) = base @ ''/user/me''"
  by (simp add: me_request_def)

lemma carries_token_url: "carries_token base w req \<Longrightarrow> url req = base @ ''/user/me''"
  by (auto simp: carries_token_def split: option.splits)

lemma validates_frame:
  assumes "user w' = user w" and "localStorage w' ''token'' = localStorage w ''token''"
  shows "validates base w' x = validates base w x"
  by (cases "(base, w, x)" rule: validates.cases)
    (use assms in \<open>auto simp: carries_token_def split: sum.splits\<close>)

lemma consistent_null [simp]: "session_consistent base (setUser JNull w)"
  by (simp add: session_consistent_def setUser_def)

lemma consistent_frame:
  assumes "session_consistent base w" and "user w' = user w"
    and "localStorage w' ''token'' = localStorage w ''token''"
    and "last_validation base (trace w') = last_validation base (trace w)"
  shows "session_consistent base w'"
  using assms validates_frame [of w' w base]
  by (simp add: session_consistent_def)

text \<open>An event that is no who-am-I request leaves a consistent session consistent.\<close>

lemma consistent_emit:
  "session_consistent base w \<Longrightarrow> \<not> is_me base e \<Longrightarrow> session_consistent base (emit e w)"
  by (erule consistent_frame) (simp_all add: last_validation_def last_where_append emit_def)

lemma consistent_navigate [simp]:
  "session_consistent base w \<Longrightarrow> session_consistent base (navigate dest w)"
  by (simp add: navigate_def consistent_emit)

lemma consistent_console_error [simp]:
  "session_consistent base w \<Longrightarrow> session_consistent base (console_error label a w)"
  by (simp add: console_error_def consistent_emit)

lemma consistent_logout: "session_consistent base (logout w)"
  by (simp add: logout_def)

text \<open>The body of the most recent who-am-I response, asked with the stored token, is read.\<close>

lemma consistent_after_read:
  assumes "ok res" and "answered_by base w res (last_validation base (trace w))"
    and "json_body res = Inr d" and "get_prop d ''user'' = Inr u"
  shows "session_consistent base (setUser (js_or u JNull) w)"
proof (cases "truthy u")
  case False
  then show ?thesis by (simp add: js_or_def)
next
  case True
  from assms(2) obtain req where
    last: "last_validation base (trace w) = Some (Fetch req (Inr res))" and
    tok: "carries_token base w req"
    by (cases "(base, w, res, last_validation base (trace w))" rule: answered_by.cases) auto
  with assms(1,3,4) True show ?thesis
    by (simp add: session_consistent_def js_or_def setUser_def carries_token_def)
qed

text \<open>A who-am-I request asked with the stored token settles.\<close>

lemma answered_by_emit:
  assumes "carries_token base w req"
  shows "answered_by base (emit (Fetch req (Inr res)) w) res
           (last_validation base (trace (emit (Fetch req (Inr res)) w)))"
  using assms carries_token_url [OF assms]
  by (simp add: last_validation_def last_where_append emit_def carries_token_def)

lemma start_inv:
  assumes "session_consistent base w"
  shows "progress_inv base (fst (start base c w)) (snd (start base c w))"
  using assms
  by (cases c)
    (auto simp: consistent_logout carries_token_def getItem_def split: option.splits)

lemma answer_inv:
  assumes "task_inv base t w"
  shows "progress_inv base (fst (answer base t r w)) (snd (answer base t r w))"
proof (cases t)
  case (Me_fetch req)
  with assms have tok: "carries_token base w req" by simp
  show ?thesis
  proof (cases r)
    case (Inl e)
    with Me_fetch show ?thesis by (simp add: fetchUserData_catch_def Let_def)
  next
    case (Inr res)
    with Me_fetch answered_by_emit [OF tok, of res] show ?thesis by (simp add: Let_def)
  qed
next
  case (Login_me req)
  with assms have tok: "carries_token base w req" by simp
  show ?thesis
  proof (cases r)
    case (Inl e)
    with Login_me show ?thesis by (simp add: Let_def)
  next
    case (Inr res)
    with Login_me answered_by_emit [OF tok, of res] show ?thesis by (simp add: Let_def)
  qed
next
  case (Login_fetch req)
  with assms have "session_consistent base (emit (Fetch req r) w)"
    by (simp add: consistent_emit)
  with Login_fetch show ?thesis
    by (cases r) (simp_all add: login_catch_def Let_def)
next
  case (Register_fetch req)
  with assms have "session_consistent base (emit (Fetch req r) w)"
    by (simp add: consistent_emit)
  with Register_fetch show ?thesis
    by (cases r) (simp_all add: Let_def)
qed (use assms in simp_all)

lemma read_inv:
  assumes "task_inv base t w"
  shows "progress_inv base (fst (read base t w)) (snd (read base t w))"
proof (cases t)
  case (Me_body res)
  with assms show ?thesis
    by (auto simp: json_def fetchUserData_catch_def consistent_after_read split: sum.splits)
next
  case (Login_profile res)
  with assms show ?thesis
    by (auto simp: json_def consistent_after_read split: sum.splits)
next
  case (Login_body res)
  with assms show ?thesis
    by (auto simp: json_def login_catch_def Let_def carries_token_def setItem_def emit_def
          split: sum.splits)
next
  case (Register_body res)
  with assms show ?thesis by (simp add: Let_def)
qed (use assms in \<open>simp_all add: Let_def\<close>)

lemma exec_inv:
  assumes "sys_inv base s" and "\<And>c. a = Call c \<Longrightarrow> snd s = []"
  shows "sys_inv base (exec base a s)"
proof (cases s)
  case (Pair w ts)
  show ?thesis
  proof (cases ts)
    case Nil
    show ?thesis
    proof (cases a)
      case (Call c)
      from assms(1) Pair Nil have "session_consistent base w" by simp
      from start_inv [OF this, of c] Pair Nil Call show ?thesis
        by (cases "start base c w") (auto split: progress.splits)
    qed (use assms(1) Pair Nil in simp_all)
  next
    case (Cons t rest)
    with assms(1) Pair have rest: "rest = []" and inv: "task_inv base t w"
      by (cases rest; simp)+
    show ?thesis
    proof (cases a)
      case (Call c)
      with assms(2) Pair Cons show ?thesis by simp
    next
      case (Answer i r)
      from answer_inv [OF inv, of r] Pair Cons rest Answer inv show ?thesis
        by (cases "answer base t r w"; cases i)
          (auto split: progress.splits elim: progress_inv.elims)
    next
      case (Read i)
      from read_inv [OF inv] Pair Cons rest Read inv show ?thesis
        by (cases "read base t w"; cases i)
          (auto split: progress.splits elim: progress_inv.elims)
    qed
  qed
qed

lemma sequential_inv:
  "sys_inv base s \<Longrightarrow> sequential base acts s \<Longrightarrow> sys_inv base (execs base acts s)"
proof (induction acts arbitrary: s)
  case Nil
  then show ?case by simp
next
  case (Cons a acts)
  from Cons.prems(2) have calls: "\<And>c. a = Call c \<Longrightarrow> snd s = []"
    by auto
  from Cons.prems(2) have rest: "sequential base acts (exec base a s)"
    by (cases a) auto
  from Cons.prems(1) calls have "sys_inv base (exec base a s)"
    by (rule exec_inv)
  from Cons.IH [OF this rest] show ?case by simp
qed

lemma consistent_validated:
  assumes "session_consistent base w" and "user w \<noteq> JNull"
  shows "\<exists>t res d. last_validation base (trace w) = Some (Fetch (me_request base t) (Inr res)) \<and>
           ok res \<and> json_body res = Inr d \<and> get_prop d ''user'' = Inr (user w) \<and>
           localStorage w ''token'' = Some t"
proof -
  from assms have v: "validates base w (last_validation base (trace w))"
    by (simp add: session_consistent_def)
  then show ?thesis
    by (cases "(base, w, last_validation base (trace w))" rule: validates.cases)
      (auto simp: carries_token_def split: sum.splits option.splits)
qed

text \<open>A login that succeeds, then a login that the server refuses: what the world is.\<close>

lemma login_then_refused_world:
  "execs local_url login_then_refused (first_visit, []) =
   (\<lparr>localStorage = Map.empty(''token'' \<mapsto> ''abc''), user = user_1,
     trace =
       [Fetch (login_request local_url ''u'' ''good'') token_abc,
        SetItem ''token'' ''abc'',
        Fetch (me_request local_url ''abc'') profile_1,
        Navigate ''/profile'',
        Fetch (login_request local_url ''u'' ''bad'') bad_creds]\<rparr>, [])"
  by (simp add: login_then_refused_def json_def json_or_empty_def ok_def js_or_def examples
        effects)

lemma login_then_refused_sequential:
  "sequential local_url login_then_refused (first_visit, [])"
  by (simp add: login_then_refused_def json_def json_or_empty_def ok_def js_or_def examples
        effects)

text \<open>
  C1, as stated: whenever the user cell ends non-null, the most recent request to the
  login or the who-am-I endpoint succeeded. This fails with no two calls overlapping:
  after a login that succeeded, a login that the server refuses returns before it touches
  the user cell, which keeps the user while the most recent check is the refused one.
\<close>

theorem last_check_counterexample:
  "\<not> (sequential local_url login_then_refused (first_visit, []) \<and>
      snd (execs local_url login_then_refused (first_visit, [])) = [] \<longrightarrow>
      user (fst (execs local_url login_then_refused (first_visit, []))) \<noteq> JNull \<longrightarrow>
      succeeded (last_check local_url
        (trace (fst (execs local_url login_then_refused (first_visit, []))))))"
  unfolding login_then_refused_world
  by (simp add: login_then_refused_sequential last_check_def login_request_def me_request_def
        user_1_def bad_creds_def reply_def ok_def)

text \<open>
  Calls that overlap are outside what holds. The who-am-I request of the mount is pending,
  \<open>logout\<close> removes the token, and then the request answers: the user cell holds the user
  and storage holds no token.
\<close>

lemma logout_overtakes_world:
  "user (fst (execs local_url logout_overtakes (holding ''abc'', []))) = user_1 \<and>
   localStorage (fst (execs local_url logout_overtakes (holding ''abc'', []))) ''token'' = None \<and>
   snd (execs local_url logout_overtakes (holding ''abc'', [])) = [] \<and>
   \<not> sequential local_url logout_overtakes (holding ''abc'', [])"
  by (simp add: logout_overtakes_def logout_def me_request_def json_def ok_def js_or_def
        examples effects)

text \<open>
  C1, amended. Start with the user cell \<open>null\<close> and no call suspended, as at mount, and take
  any schedule of calls (the mount effect, \<open>login\<close>, \<open>logout\<close>, \<open>register\<close>) and of settlings
  of their awaits, with any outcomes, in which every call is made while no earlier call is
  suspended. If the schedule ends with no call suspended and the user cell non-null, then
  the most recent who-am-I request of the trace was sent with the token that is now in
  storage as its bearer, and it answered with a success status and a body whose \<open>user\<close> is the value now
  in the cell. So a token that the most recent who-am-I request refused is never in
  storage together with a non-null user cell. A login refused before the token is written
  is no who-am-I request and changes none of this.
\<close>

theorem session_validated:
  assumes "user w0 = JNull"
    and "sequential base acts (w0, [])"
    and "execs base acts (w0, []) = (w, [])"
    and "user w \<noteq> JNull"
  shows "\<exists>t res d.
           last_validation base (trace w) = Some (Fetch (me_request base t) (Inr res)) \<and>
           map_of (headers (me_request base t)) ''Authorization'' = Some (''Bearer '' @ t) \<and>
           ok res \<and> json_body res = Inr d \<and>
           get_prop d ''user'' = Inr (user w) \<and>
           localStorage w ''token'' = Some t"
proof -
  from assms(1) have "sys_inv base (w0, [])"
    by (simp add: session_consistent_def)
  from this assms(2) have "sys_inv base (execs base acts (w0, []))"
    by (rule sequential_inv)
  with assms(3) have "session_consistent base w"
    by simp
  from this assms(4) have "\<exists>t res d.
      last_validation base (trace w) = Some (Fetch (me_request base t) (Inr res)) \<and>
      ok res \<and> json_body res = Inr d \<and> get_prop d ''user'' = Inr (user w) \<and>
      localStorage w ''token'' = Some t"
    by (rule consistent_validated)
  then show ?thesis
    by (auto simp: me_request_def)
qed

theorem session_validated_witness:
  "user first_visit = JNull \<and>
   sequential local_url login_then_refused (first_visit, []) \<and>
   snd (execs local_url login_then_refused (first_visit, [])) = [] \<and>
   user (fst (execs local_url login_then_refused (first_visit, []))) = user_1 \<and>
   (\<exists>t res d.
      last_validation local_url
          (trace (fst (execs local_url login_then_refused (first_visit, [])))) =
        Some (Fetch (me_request local_url t) (Inr res)) \<and>
      map_of (headers (me_request local_url t)) ''Authorization'' = Some (''Bearer '' @ t) \<and>
      ok res \<and> json_body res = Inr d \<and>
      get_prop d ''user'' = Inr user_1 \<and>
      localStorage (fst (execs local_url login_then_refused (first_visit, []))) ''token'' =
        Some t)"
proof -
  let ?w = "fst (execs local_url login_then_refused (first_visit, []))"
  have h1: "user first_visit = JNull"
    by (simp add: first_visit_def mount_def)
  have h3: "execs local_url login_then_refused (first_visit, []) = (?w, [])"
    unfolding login_then_refused_world by simp
  have u: "user ?w = user_1"
    unfolding login_then_refused_world by simp
  have q: "snd (execs local_url login_then_refused (first_visit, [])) = []"
    unfolding login_then_refused_world by simp
  have h4: "user ?w \<noteq> JNull"
    unfolding u by (simp add: user_1_def)
  show ?thesis
    using h1 u session_validated [OF h1 login_then_refused_sequential h3 h4]
      login_then_refused_sequential q
    by simp
qed

end
